theory Spec2Isabelle
  imports Main
begin

section \<open>JavaScript values\<close>

text \<open>
  The component \<open>DomainSelector\<close> (domain_selector.js) handles dynamically typed data:
  field paths, field descriptors, leaf values and the syntax tree of a domain. They are
  modelled by one type of JavaScript values. Numbers are the integer-valued ones (the
  source compares them with 0, 1, 4 and 10 only); an object is the list of its own
  properties in order.
\<close>

datatype jsval =
    JUndefined
  | JNull
  | JBool bool
  | JNum int
  | JStr string
  | JArr "jsval list"
  | JObj "(string \<times> jsval) list"

text \<open>
  An exception of the source is a value. \<open>TypeError\<close> is what the engine raises on a
  property access on \<open>undefined\<close> or \<open>null\<close> and on a call of a non-function;
  \<open>Thrown msg\<close> is an exception raised by a collaborator of the component.
  \<open>OutsideModel\<close> is not a JavaScript exception: the typed model returns it when a method
  is called with something that is not a reference to a node of the right class in the
  current tree, where the source would go on with an object the model cannot represent.
\<close>

datatype js_error = TypeError | Thrown string | OutsideModel

subsection \<open>Number to string\<close>

definition digit_char :: "nat \<Rightarrow> char" where
  "digit_char d = ''0123456789'' ! d"

fun string_of_nat :: "nat \<Rightarrow> string" where
  "string_of_nat n =
     (if n < 10 then [digit_char n]
      else string_of_nat (n div 10) @ [digit_char (n mod 10)])"

definition string_of_int :: "int \<Rightarrow> string" where
  "string_of_int i =
     (if i < 0 then CHR ''-'' # string_of_nat (nat (- i)) else string_of_nat (nat i))"

subsection \<open>ToString, truthiness, property access\<close>

text \<open>
  \<open>js_ToString\<close> is the conversion ToString of the language: an array is its elements
  joined by commas, \<open>undefined\<close> and \<open>null\<close> elements giving the empty string.
\<close>

fun js_ToString :: "jsval \<Rightarrow> string"
  and js_join :: "jsval list \<Rightarrow> string" where
  "js_ToString JUndefined = ''undefined''"
| "js_ToString JNull = ''null''"
| "js_ToString (JBool b) = (if b then ''true'' else ''false'')"
| "js_ToString (JNum n) = string_of_int n"
| "js_ToString (JStr s) = s"
| "js_ToString (JArr xs) = js_join xs"
| "js_ToString (JObj ps) = ''[object Object]''"
| "js_join [] = []"
| "js_join (x # xs) =
     (if x = JUndefined \<or> x = JNull then [] else js_ToString x)
     @ (if xs = [] then [] else CHR '','' # js_join xs)"

text \<open>The method call \<open>v.toString()\<close>: a TypeError on \<open>undefined\<close> and \<open>null\<close>.\<close>

definition toString :: "jsval \<Rightarrow> js_error + string" where
  "toString v =
     (if v = JUndefined \<or> v = JNull then Inl TypeError else Inr (js_ToString v))"

primrec startsWith :: "string \<Rightarrow> string \<Rightarrow> bool" where
  "startsWith s [] = True"
| "startsWith s (c # cs) = (case s of [] \<Rightarrow> False | d # ds \<Rightarrow> d = c \<and> startsWith ds cs)"

text \<open>\<open>s.includes(t)\<close> on strings: \<open>t\<close> occurs in \<open>s\<close> as a substring.\<close>

fun includes_str :: "string \<Rightarrow> string \<Rightarrow> bool" where
  "includes_str [] t = (t = [])"
| "includes_str (c # cs) t = (startsWith (c # cs) t \<or> includes_str cs t)"

definition js_truthy :: "jsval \<Rightarrow> bool" where
  "js_truthy v =
     (case v of
        JUndefined \<Rightarrow> False
      | JNull \<Rightarrow> False
      | JBool b \<Rightarrow> b
      | JNum n \<Rightarrow> n \<noteq> 0
      | JStr s \<Rightarrow> s \<noteq> []
      | JArr xs \<Rightarrow> True
      | JObj ps \<Rightarrow> True)"

definition index_of_key :: "string \<Rightarrow> nat \<Rightarrow> nat option" where
  "index_of_key k len = find (\<lambda>i. string_of_nat i = k) [0..<len]"

text \<open>
  \<open>js_get v k\<close> reads the property \<open>k\<close> of \<open>v\<close> (\<open>v.k\<close>, or \<open>v[k]\<close> for an index
  \<open>k\<close>): a TypeError on \<open>undefined\<close> and \<open>null\<close>, \<open>undefined\<close> for a property
  the value does not have. Of the inherited properties only \<open>length\<close> is a value.
\<close>

definition js_get :: "jsval \<Rightarrow> string \<Rightarrow> js_error + jsval" where
  "js_get v k =
     (case v of
        JUndefined \<Rightarrow> Inl TypeError
      | JNull \<Rightarrow> Inl TypeError
      | JBool b \<Rightarrow> Inr JUndefined
      | JNum n \<Rightarrow> Inr JUndefined
      | JStr s \<Rightarrow>
          (if k = ''length'' then Inr (JNum (int (length s)))
           else (case index_of_key k (length s) of
                   Some i \<Rightarrow> Inr (JStr [s ! i])
                 | None \<Rightarrow> Inr JUndefined))
      | JArr xs \<Rightarrow>
          (if k = ''length'' then Inr (JNum (int (length xs)))
           else (case index_of_key k (length xs) of
                   Some i \<Rightarrow> Inr (xs ! i)
                 | None \<Rightarrow> Inr JUndefined))
      | JObj ps \<Rightarrow>
          (case map_of ps k of Some x \<Rightarrow> Inr x | None \<Rightarrow> Inr JUndefined))"

text \<open>\<open>v.at(-1)\<close>: the last element of an array or string, \<open>undefined\<close> when it is
  empty; any other value has no method \<open>at\<close>.\<close>

definition at_last :: "jsval \<Rightarrow> js_error + jsval" where
  "at_last v =
     (case v of
        JArr xs \<Rightarrow> Inr (if xs = [] then JUndefined else last xs)
      | JStr s \<Rightarrow> Inr (if s = [] then JUndefined else JStr [last s])
      | _ \<Rightarrow> Inl TypeError)"

text \<open>Sequencing of steps that may raise: the first exception ends the computation.\<close>

definition andThen :: "js_error + 'a \<Rightarrow> ('a \<Rightarrow> js_error + 'b) \<Rightarrow> js_error + 'b" where
  "andThen m f = (case m of Inl e \<Rightarrow> Inl e | Inr x \<Rightarrow> f x)"

section \<open>Operators, nodes and the collaborators of the component\<close>

text \<open>
  An operator descriptor, as the operator registry (not part of this file of the source)
  hands it out: the component reads its \<open>key\<close> and its \<open>valueMode\<close>.
\<close>

record operator_info =
  key :: string
  valueMode :: string

text \<open>
  The two node classes. A leaf holds its field descriptor, its operator (\<open>None\<close> is
  \<open>undefined\<close>, which \<open>updateField\<close> stores when the registry offers no operator) and
  its value; a branch holds its connective and its children.
\<close>

datatype node =
    LeafDomainNode nat jsval "operator_info option" jsval
  | BranchDomainNode nat string "node list"

fun node_id :: "node \<Rightarrow> nat" where
  "node_id (LeafDomainNode i f ope v) = i"
| "node_id (BranchDomainNode i ope cs) = i"

datatype domain = Domain jsval

fun ast :: "domain \<Rightarrow> jsval" where
  "ast (Domain a) = a"

text \<open>
  The imports of the component and its field service are parameters of the model: the
  operator registry (\<open>findOperator\<close>, the imported \<open>getOperatorsInfo\<close>,
  \<open>getDefaultFieldValue\<close>), the field service (\<open>loadPath\<close>, awaited by the source), the
  class \<open>Domain\<close> (its constructor and \<open>toList\<close>), the tree builder and the serializer
  \<open>root.toDomain().toString()\<close>. Each may raise. The builder draws node ids from the
  counter it is given and returns the counter it leaves. The last parameter is the method
  \<open>delete(nodeId)\<close> of the branch class, whose effect on the ancestors of a branch it
  empties the specification leaves open: given the tree, the position of the branch and
  the id, it returns the tree it leaves.
\<close>

record env =
  findOperator :: "string \<Rightarrow> js_error + operator_info option"
  fields_getOperatorsInfo :: "jsval \<Rightarrow> js_error + operator_info list"
  getDefaultFieldValue :: "jsval \<Rightarrow> js_error + jsval"
  fieldService_loadPath :: "string \<Rightarrow> string \<Rightarrow> js_error + jsval"
  new_Domain :: "jsval \<Rightarrow> js_error + domain"
  toList :: "domain \<Rightarrow> js_error + jsval"
  treeBuilder_build :: "domain \<Rightarrow> (string \<rightharpoonup> jsval) \<Rightarrow> nat \<Rightarrow> (js_error + node) \<times> nat"
  toDomain_toString :: "node \<Rightarrow> js_error + string"
  branch_delete :: "node \<Rightarrow> nat list \<Rightarrow> nat \<Rightarrow> js_error + node"

section \<open>Field descriptors\<close>

text \<open>
  \<open>loadFieldDef(resModel, field)\<close>, lines 112-126. The shorthand test
  \<open>"01".includes(field.toString())\<close> comes first, then the guard on non-strings and the
  empty string, then the field service.
\<close>

definition loadFieldDef :: "env \<Rightarrow> string \<Rightarrow> jsval \<Rightarrow> js_error + jsval" where
  "loadFieldDef E resModel field =
     andThen (toString field) (\<lambda>s.
       if includes_str ''01'' s then Inr (JObj [(''type'', JStr ''integer'')])
       else (case field of
               JStr path \<Rightarrow>
                 if path = [] then Inr JNull
                 else
                   andThen (fieldService_loadPath E resModel path) (\<lambda>res.
                   andThen (js_get res ''isInvalid'') (\<lambda>isInvalid.
                   andThen (js_get res ''names'') (\<lambda>names.
                   andThen (js_get res ''modelsInfo'') (\<lambda>modelsInfo.
                     if js_truthy isInvalid then Inr JNull
                     else
                       andThen (at_last names) (\<lambda>name.
                       andThen (at_last modelsInfo) (\<lambda>info.
                       andThen (js_get info ''fieldDefs'') (\<lambda>fieldDefs.
                         js_get fieldDefs (js_ToString name))))))))
             | _ \<Rightarrow> Inr JNull))"

section \<open>The node classes\<close>

text \<open>
  A method of the component receives node objects that are part of \<open>this.tree.root\<close> and
  mutates them in place. In the model the tree is a value, and a reference to the node a
  method mutates is its position in the tree: the child indices on the way from the root.
  A node that a method only reads (for its \<open>id\<close>) is passed as a value.
\<close>

fun node_at :: "node \<Rightarrow> nat list \<Rightarrow> node option" where
  "node_at n [] = Some n"
| "node_at n (k # ks) =
     (case n of
        BranchDomainNode i ope cs \<Rightarrow> (if k < length cs then node_at (cs ! k) ks else None)
      | LeafDomainNode i f ope v \<Rightarrow> None)"

fun replace_at :: "node \<Rightarrow> nat list \<Rightarrow> node \<Rightarrow> node" where
  "replace_at n [] m = m"
| "replace_at n (k # ks) m =
     (case n of
        BranchDomainNode i ope cs \<Rightarrow>
          (if k < length cs then BranchDomainNode i ope (cs[k := replace_at (cs ! k) ks m])
           else n)
      | LeafDomainNode i f ope v \<Rightarrow> n)"

text \<open>
  The node classes (\<open>BranchDomainNode\<close> and the class of the leaves, imported from
  domain_selector_nodes) are not among the source files. Their methods \<open>add\<close>,
  \<open>insertAfter\<close> and \<open>clone\<close> and the constructor of a branch are modelled from the
  specification; the method \<open>delete\<close> is a parameter of the model (see above).
\<close>

text \<open>
  Modelled from the spec: the method \<open>add(node)\<close> of a branch, missing from the source
  files. Section 4.4: it appends the node to the children.
\<close>

definition add :: "node \<Rightarrow> node list \<Rightarrow> node list" where
  "add n cs = cs @ [n]"

text \<open>
  Modelled from the spec: the method \<open>insertAfter(siblingId, node)\<close> of a branch,
  missing from the source files. Section 4.4: it inserts the node immediately after the
  child whose id is \<open>siblingId\<close>, and does nothing when no child has that id.
\<close>

fun insertAfter :: "nat \<Rightarrow> node \<Rightarrow> node list \<Rightarrow> node list" where
  "insertAfter siblingId n [] = []"
| "insertAfter siblingId n (c # cs) =
     (if node_id c = siblingId then c # n # cs else c # insertAfter siblingId n cs)"

text \<open>
  Modelled from the spec: the constructor \<open>new BranchDomainNode(operator, children)\<close>,
  missing from the source files. Section 3: a node gets its id when it is made, and an id
  is never reused. The model draws ids from a counter, the last id given out; the
  constructor runs after its arguments are evaluated and takes the next id.
\<close>

definition new_BranchDomainNode :: "string \<Rightarrow> node list \<Rightarrow> nat \<Rightarrow> node \<times> nat" where
  "new_BranchDomainNode ope cs n = (BranchDomainNode (Suc n) ope cs, Suc n)"

text \<open>
  Modelled from the spec: the method \<open>clone()\<close> of a node, missing from the source
  files. Section 4.4: a deep copy with freshly assigned ids, otherwise identical in field,
  operator, value and children. The children of a branch are cloned first, in order.
\<close>

fun clone :: "node \<Rightarrow> nat \<Rightarrow> node \<times> nat"
  and clone_list :: "node list \<Rightarrow> nat \<Rightarrow> node list \<times> nat" where
  "clone (LeafDomainNode i f ope v) n = (LeafDomainNode (Suc n) f ope v, Suc n)"
| "clone (BranchDomainNode i ope cs) n =
     (case clone_list cs n of (cs', n') \<Rightarrow> new_BranchDomainNode ope cs' n')"
| "clone_list [] n = ([], n)"
| "clone_list (c # cs) n =
     (case clone c n of (c', n1) \<Rightarrow>
        (case clone_list cs n1 of (cs', n2) \<Rightarrow> (c' # cs', n2)))"

text \<open>The ids of a tree, and a tree with its ids erased (what a clone keeps).\<close>

fun ids :: "node \<Rightarrow> nat list" where
  "ids (LeafDomainNode i f ope v) = [i]"
| "ids (BranchDomainNode i ope cs) = i # concat (map ids cs)"

fun erase_ids :: "node \<Rightarrow> node" where
  "erase_ids (LeafDomainNode i f ope v) = LeafDomainNode 0 f ope v"
| "erase_ids (BranchDomainNode i ope cs) = BranchDomainNode 0 ope (map erase_ids cs)"

section \<open>The component\<close>

text \<open>
  The properties the component receives (\<open>value\<close>, \<open>resModel\<close>, \<open>defaultLeafValue\<close>), and
  its state: \<open>this.props.resModel\<close>, the reactive \<open>this.tree\<close> (\<open>isSupported\<close> and
  \<open>root\<close>, \<open>null\<close> at setup), \<open>this.defaultLeaf\<close> (\<open>undefined\<close> until a rebuild sets
  it), the id counter of the node classes, and the strings the component has passed to
  \<open>this.props.update\<close>, oldest first. The callback \<open>update\<close> belongs to the owner of the
  component; the model records what it is called with and takes it to return.

  The methods \<open>onPropsUpdated\<close>, \<open>loadFieldDefs\<close>, \<open>loadFieldDef\<close> and \<open>updateField\<close>
  are asynchronous: for them, to raise is to reject the promise they return. The model is
  sequential; what other calls do while one of them awaits is not part of it.
\<close>

record props =
  value_prop :: string
  resModel :: string
  defaultLeafValue :: jsval

record component =
  props_resModel :: string
  tree_isSupported :: bool
  tree_root :: "node option"
  defaultLeaf :: "node option"
  nextId :: nat
  update_calls :: "string list"

definition deref :: "component \<Rightarrow> nat list \<Rightarrow> node option" where
  "deref this r = (case tree_root this of None \<Rightarrow> None | Some root \<Rightarrow> node_at root r)"

definition store :: "component \<Rightarrow> nat list \<Rightarrow> node \<Rightarrow> component" where
  "store this r n =
     this\<lparr>tree_root := map_option (\<lambda>root. replace_at root r n) (tree_root this)\<rparr>"

subsection \<open>Rebuild: onPropsUpdated (lines 60-78) and what it calls\<close>

text \<open>\<open>for (const x of v)\<close>: the elements of an array, the characters of a string.\<close>

definition for_of :: "jsval \<Rightarrow> js_error + jsval list" where
  "for_of v =
     (case v of
        JArr xs \<Rightarrow> Inr xs
      | JStr s \<Rightarrow> Inr (map (\<lambda>c. JStr [c]) s)
      | _ \<Rightarrow> Inl TypeError)"

text \<open>
  The loop of \<open>extractFieldsFromDomain\<close> (lines 82-88); \<open>flds\<close> is the array \<open>fields\<close>
  built so far.
\<close>

fun extractFields_loop :: "jsval list \<Rightarrow> jsval list \<Rightarrow> js_error + jsval list" where
  "extractFields_loop [] flds = Inr flds"
| "extractFields_loop (n # rest) flds =
     (case js_get n ''type'' of
        Inl e \<Rightarrow> Inl e
      | Inr ty \<Rightarrow>
          if ty = JNum 4 \<or> ty = JNum 10 then
            (case andThen (js_get n ''value'') (\<lambda>val. js_get val ''0'') of
               Inl e \<Rightarrow> Inl e
             | Inr first \<Rightarrow>
                 (case js_get first ''type'' of
                    Inl e \<Rightarrow> Inl e
                  | Inr fty \<Rightarrow>
                      (case js_get first ''value'' of
                         Inl e \<Rightarrow> Inl e
                       | Inr fval \<Rightarrow>
                           if fty = JNum 1 \<or> fval = JNum 0 \<or> fval = JNum 1
                           then extractFields_loop rest (flds @ [fval])
                           else extractFields_loop rest flds)))
          else extractFields_loop rest flds)"

definition extractFieldsFromDomain :: "domain \<Rightarrow> js_error + jsval list" where
  "extractFieldsFromDomain d =
     andThen (js_get (ast d) ''value'') (\<lambda>v.
     andThen (for_of v) (\<lambda>nodes. extractFields_loop nodes []))"

text \<open>
  \<open>loadFieldDefs\<close> (lines 96-110) starts one \<open>loadFieldDef\<close> per field and awaits them
  all; the result maps the property key of each field to its descriptor. When several
  fail, \<open>Promise.all\<close> rejects with the failure that comes first in time; the model
  resolves the fields in order and reports the first failure of the list, so that only
  which of the errors is reported can differ.
\<close>

fun loadFieldDefs_loop ::
  "env \<Rightarrow> string \<Rightarrow> jsval list \<Rightarrow> (string \<rightharpoonup> jsval) \<Rightarrow> js_error + (string \<rightharpoonup> jsval)" where
  "loadFieldDefs_loop E m [] fieldDefs = Inr fieldDefs"
| "loadFieldDefs_loop E m (field # rest) fieldDefs =
     (case loadFieldDef E m field of
        Inl e \<Rightarrow> Inl e
      | Inr info \<Rightarrow> loadFieldDefs_loop E m rest (fieldDefs(js_ToString field \<mapsto> info)))"

definition loadFieldDefs ::
  "env \<Rightarrow> string \<Rightarrow> jsval list \<Rightarrow> js_error + (string \<rightharpoonup> jsval)" where
  "loadFieldDefs E m flds = loadFieldDefs_loop E m flds Map.empty"

text \<open>\<open>n.children[0]\<close>: a leaf has no children, an empty array no first element.\<close>

definition children0 :: "node \<Rightarrow> js_error + node option" where
  "children0 n =
     (case n of
        BranchDomainNode i ope cs \<Rightarrow> Inr (case cs of [] \<Rightarrow> None | c # rest \<Rightarrow> Some c)
      | LeafDomainNode i f ope v \<Rightarrow> Inl TypeError)"

text \<open>
  The \<open>try\<close> block of \<open>onPropsUpdated\<close> (lines 62-73), statement by statement: what it
  raises, if anything, and the state it leaves. The root is assigned before the default
  leaf is built.
\<close>

definition onPropsUpdated_try ::
  "env \<Rightarrow> component \<Rightarrow> props \<Rightarrow> (js_error + unit) \<times> component" where
  "onPropsUpdated_try E this p =
     (case andThen (new_Domain E (JStr (value_prop p))) (\<lambda>d.
           andThen (toList E d) (\<lambda>l.
           andThen (extractFieldsFromDomain d) (\<lambda>flds.
           andThen (loadFieldDefs E (resModel p) flds) (\<lambda>fieldDefs.
             Inr (d, fieldDefs))))) of
        Inl e \<Rightarrow> (Inl e, this)
      | Inr (d, fieldDefs) \<Rightarrow>
          (case treeBuilder_build E d fieldDefs (nextId this) of
             (Inl e, n1) \<Rightarrow> (Inl e, this\<lparr>nextId := n1\<rparr>)
           | (Inr root, n1) \<Rightarrow>
               (case andThen (new_Domain E (JArr [defaultLeafValue p])) (\<lambda>d2.
                     andThen (js_get (defaultLeafValue p) ''0'') (\<lambda>f0.
                     andThen (loadFieldDefs E (resModel p) [f0]) (\<lambda>defs2.
                       Inr (d2, defs2)))) of
                  Inl e \<Rightarrow> (Inl e, this\<lparr>tree_root := Some root, nextId := n1\<rparr>)
                | Inr (d2, defs2) \<Rightarrow>
                    (case treeBuilder_build E d2 defs2 n1 of
                       (Inl e, n2) \<Rightarrow> (Inl e, this\<lparr>tree_root := Some root, nextId := n2\<rparr>)
                     | (Inr r2, n2) \<Rightarrow>
                         (case children0 r2 of
                            Inl e \<Rightarrow> (Inl e, this\<lparr>tree_root := Some root, nextId := n2\<rparr>)
                          | Inr leaf \<Rightarrow>
                              (Inr (),
                               this\<lparr>tree_root := Some root, defaultLeaf := leaf,
                                    tree_isSupported := True, nextId := n2\<rparr>))))))"

text \<open>
  \<open>onPropsUpdated\<close>: the \<open>try\<close> block, and on any exception the \<open>catch\<close> block
  (lines 75-76), which can itself raise only through the constructor of the empty domain
  or the builder.
\<close>

definition onPropsUpdated ::
  "env \<Rightarrow> component \<Rightarrow> props \<Rightarrow> (js_error + unit) \<times> component" where
  "onPropsUpdated E this p =
     (case onPropsUpdated_try E this p of
        (Inr u, this1) \<Rightarrow> (Inr (), this1)
      | (Inl e, this1) \<Rightarrow>
          (case new_Domain E (JArr []) of
             Inl e2 \<Rightarrow> (Inl e2, this1\<lparr>tree_isSupported := False\<rparr>)
           | Inr d0 \<Rightarrow>
               (case treeBuilder_build E d0 Map.empty (nextId this1) of
                  (Inl e2, n) \<Rightarrow> (Inl e2, this1\<lparr>tree_isSupported := False, nextId := n\<rparr>)
                | (Inr r0, n) \<Rightarrow>
                    (Inr (),
                     this1\<lparr>tree_isSupported := False, tree_root := Some r0, nextId := n\<rparr>))))"

subsection \<open>Mutations (lines 92-94 and 128-199)\<close>

definition notifyChanges :: "env \<Rightarrow> component \<Rightarrow> (js_error + unit) \<times> component" where
  "notifyChanges E this =
     (case tree_root this of
        None \<Rightarrow> (Inl TypeError, this)
      | Some root \<Rightarrow>
          (case toDomain_toString E root of
             Inl e \<Rightarrow> (Inl e, this)
           | Inr s \<Rightarrow> (Inr (), this\<lparr>update_calls := update_calls this @ [s]\<rparr>)))"

definition createNewLeaf :: "component \<Rightarrow> (js_error + node) \<times> component" where
  "createNewLeaf this =
     (case defaultLeaf this of
        None \<Rightarrow> (Inl TypeError, this)
      | Some d \<Rightarrow> (case clone d (nextId this) of (c, n) \<Rightarrow> (Inr c, this\<lparr>nextId := n\<rparr>)))"

definition createNewBranch :: "component \<Rightarrow> string \<Rightarrow> (js_error + node) \<times> component" where
  "createNewBranch this ope =
     (case createNewLeaf this of
        (Inl e, this1) \<Rightarrow> (Inl e, this1)
      | (Inr l1, this1) \<Rightarrow>
          (case createNewLeaf this1 of
             (Inl e, this2) \<Rightarrow> (Inl e, this2)
           | (Inr l2, this2) \<Rightarrow>
               (case new_BranchDomainNode ope [l1, l2] (nextId this2) of
                  (b, n) \<Rightarrow> (Inr b, this2\<lparr>nextId := n\<rparr>))))"

definition insertRootLeaf ::
  "env \<Rightarrow> component \<Rightarrow> nat list \<Rightarrow> (js_error + unit) \<times> component" where
  "insertRootLeaf E this parent =
     (case deref this parent of
        Some (BranchDomainNode i ope cs) \<Rightarrow>
          (case createNewLeaf this of
             (Inl e, this1) \<Rightarrow> (Inl e, this1)
           | (Inr leaf, this1) \<Rightarrow>
               notifyChanges E (store this1 parent (BranchDomainNode i ope (add leaf cs))))
      | _ \<Rightarrow> (Inl OutsideModel, this))"

definition insertLeaf ::
  "env \<Rightarrow> component \<Rightarrow> nat list \<Rightarrow> node \<Rightarrow> (js_error + unit) \<times> component" where
  "insertLeaf E this parent n =
     (case deref this parent of
        Some (BranchDomainNode i ope cs) \<Rightarrow>
          (case createNewLeaf this of
             (Inl e, this1) \<Rightarrow> (Inl e, this1)
           | (Inr leaf, this1) \<Rightarrow>
               notifyChanges E
                 (store this1 parent (BranchDomainNode i ope (insertAfter (node_id n) leaf cs))))
      | _ \<Rightarrow> (Inl OutsideModel, this))"

definition insertBranch ::
  "env \<Rightarrow> component \<Rightarrow> nat list \<Rightarrow> node \<Rightarrow> (js_error + unit) \<times> component" where
  "insertBranch E this parent n =
     (case deref this parent of
        Some (BranchDomainNode i ope cs) \<Rightarrow>
          (let nextOperator = (if ope = ''AND'' then ''OR'' else ''AND'') in
           case createNewBranch this nextOperator of
             (Inl e, this1) \<Rightarrow> (Inl e, this1)
           | (Inr b, this1) \<Rightarrow>
               notifyChanges E
                 (store this1 parent (BranchDomainNode i ope (insertAfter (node_id n) b cs))))
      | _ \<Rightarrow> (Inl OutsideModel, this))"

definition delete ::
  "env \<Rightarrow> component \<Rightarrow> nat list \<Rightarrow> node \<Rightarrow> (js_error + unit) \<times> component" where
  "delete E this parent n =
     (case deref this parent of
        Some (BranchDomainNode i ope cs) \<Rightarrow>
          (case tree_root this of
             None \<Rightarrow> (Inl OutsideModel, this)
           | Some root \<Rightarrow>
               (case branch_delete E root parent (node_id n) of
                  Inl e \<Rightarrow> (Inl e, this)
                | Inr root' \<Rightarrow> notifyChanges E (this\<lparr>tree_root := Some root'\<rparr>)))
      | _ \<Rightarrow> (Inl OutsideModel, this))"

definition updateBranchOperator ::
  "env \<Rightarrow> component \<Rightarrow> nat list \<Rightarrow> string \<Rightarrow> (js_error + unit) \<times> component" where
  "updateBranchOperator E this n ope =
     (case deref this n of
        Some (BranchDomainNode i old cs) \<Rightarrow>
          notifyChanges E (store this n (BranchDomainNode i ope cs))
      | _ \<Rightarrow> (Inl OutsideModel, this))"

text \<open>The own properties an object spread \<open>{...v}\<close> copies.\<close>

definition spread :: "jsval \<Rightarrow> (string \<times> jsval) list" where
  "spread v =
     (case v of
        JObj ps \<Rightarrow> ps
      | JArr xs \<Rightarrow> zip (map string_of_nat [0..<length xs]) xs
      | JStr s \<Rightarrow> zip (map string_of_nat [0..<length s]) (map (\<lambda>c. JStr [c]) s)
      | _ \<Rightarrow> [])"

fun set_prop :: "string \<Rightarrow> jsval \<Rightarrow> (string \<times> jsval) list \<Rightarrow> (string \<times> jsval) list" where
  "set_prop k v [] = [(k, v)]"
| "set_prop k v (p # ps) = (if fst p = k then (k, v) # ps else p # set_prop k v ps)"

text \<open>
  \<open>updateField\<close> (lines 162-168). Each assignment to the node is a state of its own: an
  exception after line 164 leaves the node with its new \<open>field\<close>.
\<close>

definition updateField ::
  "env \<Rightarrow> component \<Rightarrow> nat list \<Rightarrow> jsval \<Rightarrow> (js_error + unit) \<times> component" where
  "updateField E this n field =
     (case deref this n of
        Some (LeafDomainNode i f ope v) \<Rightarrow>
          (case loadFieldDef E (props_resModel this) field of
             Inl e \<Rightarrow> (Inl e, this)
           | Inr fieldDef \<Rightarrow>
               (let f1 = JObj (set_prop ''name'' field (spread fieldDef));
                    this1 = store this n (LeafDomainNode i f1 ope v)
                in case andThen (js_get fieldDef ''type'') (fields_getOperatorsInfo E) of
                     Inl e \<Rightarrow> (Inl e, this1)
                   | Inr operators \<Rightarrow>
                       (let ope1 = (case operators of [] \<Rightarrow> None | x # rest \<Rightarrow> Some x);
                            this2 = store this1 n (LeafDomainNode i f1 ope1 v)
                        in case getDefaultFieldValue E fieldDef of
                             Inl e \<Rightarrow> (Inl e, this2)
                           | Inr v1 \<Rightarrow>
                               notifyChanges E (store this2 n (LeafDomainNode i f1 ope1 v1)))))
      | _ \<Rightarrow> (Inl OutsideModel, this))"

text \<open>
  \<open>updateLeafOperator\<close> (lines 170-194). \<open>migrated\<close> is the value the \<open>switch\<close> assigns
  (the old value when the two value modes are equal); the \<open>default\<close> case is every value
  mode other than \<open>"none"\<close> and \<open>"multiple"\<close>.
\<close>

definition updateLeafOperator ::
  "env \<Rightarrow> component \<Rightarrow> nat list \<Rightarrow> string \<Rightarrow> (js_error + unit) \<times> component" where
  "updateLeafOperator E this n ope =
     (case deref this n of
        Some (LeafDomainNode i f previousOperator v) \<Rightarrow>
          (case findOperator E ope of
             Inl e \<Rightarrow> (Inl e, this)
           | Inr found \<Rightarrow>
               (let this1 = store this n (LeafDomainNode i f found v)
                in case (previousOperator, found) of
                     (Some previous, Some new) \<Rightarrow>
                       (let migrated =
                              (if valueMode previous \<noteq> valueMode new then
                                 (if valueMode new = ''none'' then Inr (JBool False)
                                  else if valueMode new = ''multiple'' then
                                    Inr (if valueMode previous = ''none'' then JArr []
                                         else JArr [v])
                                  else if valueMode previous = ''none'' then
                                    getDefaultFieldValue E f
                                  else js_get v ''0'')
                               else Inr v)
                        in case migrated of
                             Inl e \<Rightarrow> (Inl e, this1)
                           | Inr v1 \<Rightarrow>
                               notifyChanges E (store this1 n (LeafDomainNode i f found v1)))
                   | _ \<Rightarrow> (Inl TypeError, this1)))
      | _ \<Rightarrow> (Inl OutsideModel, this))"

definition updateLeafValue ::
  "env \<Rightarrow> component \<Rightarrow> nat list \<Rightarrow> jsval \<Rightarrow> (js_error + unit) \<times> component" where
  "updateLeafValue E this n v =
     (case deref this n of
        Some (LeafDomainNode i f ope old) \<Rightarrow>
          notifyChanges E (store this n (LeafDomainNode i f ope v))
      | _ \<Rightarrow> (Inl OutsideModel, this))"

text \<open>The eight mutations the template can trigger, as one command type.\<close>

datatype mutation =
    InsertRootLeaf "nat list"
  | InsertLeaf "nat list" node
  | InsertBranch "nat list" node
  | Delete "nat list" node
  | UpdateBranchOperator "nat list" string
  | UpdateField "nat list" jsval
  | UpdateLeafOperator "nat list" string
  | UpdateLeafValue "nat list" jsval

fun mutate :: "env \<Rightarrow> component \<Rightarrow> mutation \<Rightarrow> (js_error + unit) \<times> component" where
  "mutate E this (InsertRootLeaf parent) = insertRootLeaf E this parent"
| "mutate E this (InsertLeaf parent n) = insertLeaf E this parent n"
| "mutate E this (InsertBranch parent n) = insertBranch E this parent n"
| "mutate E this (Delete parent n) = delete E this parent n"
| "mutate E this (UpdateBranchOperator n ope) = updateBranchOperator E this n ope"
| "mutate E this (UpdateField n field) = updateField E this n field"
| "mutate E this (UpdateLeafOperator n ope) = updateLeafOperator E this n ope"
| "mutate E this (UpdateLeafValue n v) = updateLeafValue E this n v"

text \<open>
  The inputs a mutation is made for: the node it mutates is a node of the tree, a branch
  or a leaf as the mutation needs; there is a default leaf to clone; the field resolves
  to a descriptor whose type the registry answers for; the operator key is registered
  and the leaf has an operator; a value to take the first element of is there.
\<close>

definition returns :: "js_error + 'a \<Rightarrow> bool" where
  "returns r = (case r of Inl e \<Rightarrow> False | Inr x \<Rightarrow> True)"

definition is_branch :: "node option \<Rightarrow> bool" where
  "is_branch x = (case x of Some (BranchDomainNode i ope cs) \<Rightarrow> True | _ \<Rightarrow> False)"

definition is_leaf :: "node option \<Rightarrow> bool" where
  "is_leaf x = (case x of Some (LeafDomainNode i f ope v) \<Rightarrow> True | _ \<Rightarrow> False)"

fun accepted :: "env \<Rightarrow> component \<Rightarrow> mutation \<Rightarrow> bool" where
  "accepted E this (InsertRootLeaf parent) =
     (is_branch (deref this parent) \<and> defaultLeaf this \<noteq> None)"
| "accepted E this (InsertLeaf parent n) =
     (is_branch (deref this parent) \<and> defaultLeaf this \<noteq> None)"
| "accepted E this (InsertBranch parent n) =
     (is_branch (deref this parent) \<and> defaultLeaf this \<noteq> None)"
| "accepted E this (Delete parent n) =
     (is_branch (deref this parent)
      \<and> (case tree_root this of
            None \<Rightarrow> False
          | Some root \<Rightarrow> returns (branch_delete E root parent (node_id n))))"
| "accepted E this (UpdateBranchOperator n ope) = is_branch (deref this n)"
| "accepted E this (UpdateField n field) =
     (is_leaf (deref this n)
      \<and> (case loadFieldDef E (props_resModel this) field of
            Inl e \<Rightarrow> False
          | Inr fieldDef \<Rightarrow>
              returns (andThen (js_get fieldDef ''type'') (fields_getOperatorsInfo E))
              \<and> returns (getDefaultFieldValue E fieldDef)))"
| "accepted E this (UpdateLeafOperator n ope) =
     (case deref this n of
        Some (LeafDomainNode i f (Some previous) v) \<Rightarrow>
          (case findOperator E ope of
             Inr (Some new) \<Rightarrow>
               valueMode previous = valueMode new \<or> valueMode new = ''none''
               \<or> valueMode new = ''multiple''
               \<or> (if valueMode previous = ''none'' then returns (getDefaultFieldValue E f)
                   else v \<noteq> JUndefined \<and> v \<noteq> JNull)
           | _ \<Rightarrow> False)
      | _ \<Rightarrow> False)"
| "accepted E this (UpdateLeafValue n v) = is_leaf (deref this n)"

subsection \<open>The operators offered for a leaf (lines 209-215)\<close>

text \<open>
  \<open>getOperatorsInfo(node)\<close>: the operators registered for the type of the node's field,
  and the node's own operator pushed at the end when none of them has its key. With no
  operator on the node, \<open>node.operator.key\<close> raises as soon as \<open>some\<close> calls its
  callback, that is unless the registered list is empty. A branch has no \<open>field\<close>, so
  \<open>node.field.type\<close> raises on it. The source pushes onto the array the registry
  returned; the model takes the registry to return a fresh array on each call.
\<close>

definition getOperatorsInfo :: "env \<Rightarrow> node \<Rightarrow> js_error + operator_info option list" where
  "getOperatorsInfo E n =
     (case n of
        LeafDomainNode i f ope v \<Rightarrow>
          andThen (js_get f ''type'') (\<lambda>ty.
          andThen (fields_getOperatorsInfo E ty) (\<lambda>operators.
            case ope of
              None \<Rightarrow> (if operators = [] then Inr [None] else Inl TypeError)
            | Some current \<Rightarrow>
                if \<not> list_ex (\<lambda>op. key op = key current) operators
                then Inr (map Some operators @ [Some current])
                else Inr (map Some operators)))
      | BranchDomainNode i ope cs \<Rightarrow> Inl TypeError)"

section \<open>Example collaborators\<close>

text \<open>
  A small registry, field service, domain class, builder and serializer, and a component
  at setup, used to run the model on concrete inputs. The registry knows the operators
  \<open>=\<close> and \<open>!=\<close> (value mode single), \<open>in\<close> (multiple) and \<open>set\<close> (none), not
  \<open>ilike\<close>; the service knows the fields \<open>id\<close>, \<open>age\<close> (integers) and \<open>active\<close> (a
  boolean) and reports any other path as invalid; the domain class reads a list, and of
  the strings only \<open>[]\<close>; the builder makes a flat conjunction of leaves and raises on a
  field without descriptor.
\<close>

definition ex_eq :: operator_info where
  "ex_eq = \<lparr>key = ''='', valueMode = ''single''\<rparr>"

definition ex_in :: operator_info where
  "ex_in = \<lparr>key = ''in'', valueMode = ''multiple''\<rparr>"

definition ex_set :: operator_info where
  "ex_set = \<lparr>key = ''set'', valueMode = ''none''\<rparr>"

definition ex_ne :: operator_info where
  "ex_ne = \<lparr>key = ''!='', valueMode = ''single''\<rparr>"

definition ex_ilike :: operator_info where
  "ex_ilike = \<lparr>key = ''ilike'', valueMode = ''single''\<rparr>"

definition ex_findOperator :: "string \<Rightarrow> js_error + operator_info option" where
  "ex_findOperator k =
     (if k = ''='' then Inr (Some ex_eq)
      else if k = ''!='' then Inr (Some ex_ne)
      else if k = ''in'' then Inr (Some ex_in)
      else if k = ''set'' then Inr (Some ex_set)
      else Inl (Thrown ''unknown operator''))"

definition ex_operators :: "jsval \<Rightarrow> js_error + operator_info list" where
  "ex_operators ty =
     (if ty = JStr ''integer'' then Inr [ex_eq, ex_ne, ex_in, ex_set]
      else if ty = JStr ''boolean'' then Inr [ex_eq, ex_set]
      else Inr [])"

definition ex_default :: "jsval \<Rightarrow> js_error + jsval" where
  "ex_default f =
     andThen (js_get f ''type'') (\<lambda>ty.
       Inr (if ty = JStr ''integer'' then JNum 1
            else if ty = JStr ''boolean'' then JBool True
            else JStr []))"

definition ex_fieldDefs :: jsval where
  "ex_fieldDefs =
     JObj [(''id'', JObj [(''type'', JStr ''integer'')]),
           (''age'', JObj [(''type'', JStr ''integer'')]),
           (''active'', JObj [(''type'', JStr ''boolean'')])]"

definition ex_loadPath :: "string \<Rightarrow> string \<Rightarrow> js_error + jsval" where
  "ex_loadPath m path =
     (if path \<in> set [''id'', ''age'', ''active''] then
        Inr (JObj [(''isInvalid'', JBool False), (''names'', JArr [JStr path]),
                   (''modelsInfo'', JArr [JObj [(''fieldDefs'', ex_fieldDefs)]])])
      else Inr (JObj [(''isInvalid'', JBool True), (''names'', JArr []),
                      (''modelsInfo'', JArr [])]))"

fun ex_toAST :: "jsval \<Rightarrow> jsval" where
  "ex_toAST (JNum n) = JObj [(''type'', JNum 0), (''value'', JNum n)]"
| "ex_toAST (JStr s) = JObj [(''type'', JNum 1), (''value'', JStr s)]"
| "ex_toAST (JBool b) = JObj [(''type'', JNum 2), (''value'', JBool b)]"
| "ex_toAST (JArr xs) = JObj [(''type'', JNum 4), (''value'', JArr (map ex_toAST xs))]"
| "ex_toAST v = JObj [(''type'', JNum 3)]"

definition ex_new_Domain :: "jsval \<Rightarrow> js_error + domain" where
  "ex_new_Domain v =
     (case v of
        JArr xs \<Rightarrow> Inr (Domain (ex_toAST v))
      | JStr s \<Rightarrow> (if s = ''[]'' then Inr (Domain (ex_toAST (JArr [])))
                   else Inl (Thrown ''parse error''))
      | _ \<Rightarrow> Inl (Thrown ''parse error''))"

definition ex_plain :: "jsval \<Rightarrow> jsval" where
  "ex_plain a =
     (case js_get a ''value'' of
        Inr (JArr xs) \<Rightarrow>
          JArr (map (\<lambda>y. case js_get y ''value'' of Inr w \<Rightarrow> w | Inl e \<Rightarrow> JUndefined) xs)
      | Inr w \<Rightarrow> w
      | Inl e \<Rightarrow> JUndefined)"

definition ex_leaf :: "(string \<rightharpoonup> jsval) \<Rightarrow> jsval \<Rightarrow> nat \<Rightarrow> js_error + node" where
  "ex_leaf defs a i =
     andThen (js_get a ''value'') (\<lambda>triple.
     andThen (js_get triple ''0'') (\<lambda>f.
     andThen (js_get f ''value'') (\<lambda>name.
     andThen (js_get triple ''1'') (\<lambda>k.
     andThen (js_get triple ''2'') (\<lambda>x.
       case defs (js_ToString name) of
         None \<Rightarrow> Inl (Thrown ''unknown field'')
       | Some d \<Rightarrow>
           if d = JNull \<or> d = JUndefined then Inl (Thrown ''unknown field'')
           else andThen (ex_findOperator (js_ToString (ex_plain k))) (\<lambda>ope.
                  Inr (LeafDomainNode i (JObj (set_prop ''name'' name (spread d))) ope
                         (ex_plain x))))))))"

fun ex_leaves :: "(string \<rightharpoonup> jsval) \<Rightarrow> jsval list \<Rightarrow> nat \<Rightarrow> (js_error + node list) \<times> nat" where
  "ex_leaves defs [] n = (Inr [], n)"
| "ex_leaves defs (a # rest) n =
     (case ex_leaf defs a (Suc n) of
        Inl e \<Rightarrow> (Inl e, n)
      | Inr l \<Rightarrow>
          (case ex_leaves defs rest (Suc n) of
             (Inl e, n') \<Rightarrow> (Inl e, n')
           | (Inr ls, n') \<Rightarrow> (Inr (l # ls), n')))"

definition ex_build :: "domain \<Rightarrow> (string \<rightharpoonup> jsval) \<Rightarrow> nat \<Rightarrow> (js_error + node) \<times> nat" where
  "ex_build d defs n =
     (case js_get (ast d) ''value'' of
        Inr (JArr xs) \<Rightarrow>
          (case ex_leaves defs xs n of
             (Inl e, n') \<Rightarrow> (Inl e, n')
           | (Inr ls, n') \<Rightarrow> (Inr (BranchDomainNode (Suc n') ''AND'' ls), Suc n'))
      | _ \<Rightarrow> (Inl (Thrown ''unsupported''), n))"

fun ex_serialize :: "node \<Rightarrow> string" where
  "ex_serialize (LeafDomainNode i f ope v) =
     ''('' @ (case js_get f ''name'' of Inr x \<Rightarrow> js_ToString x | Inl e \<Rightarrow> [])
     @ '' '' @ (case ope of None \<Rightarrow> ''undefined'' | Some x \<Rightarrow> key x)
     @ '' '' @ js_ToString v @ '')''"
| "ex_serialize (BranchDomainNode i ope cs) = ope @ ''['' @ concat (map ex_serialize cs) @ '']''"

definition ex_delete :: "node \<Rightarrow> nat list \<Rightarrow> nat \<Rightarrow> js_error + node" where
  "ex_delete root parent i =
     (case node_at root parent of
        Some (BranchDomainNode j ope cs) \<Rightarrow>
          Inr (replace_at root parent (BranchDomainNode j ope (filter (\<lambda>c. node_id c \<noteq> i) cs)))
      | _ \<Rightarrow> Inl TypeError)"

definition ex_env :: env where
  "ex_env =
     \<lparr>findOperator = ex_findOperator,
      fields_getOperatorsInfo = ex_operators,
      getDefaultFieldValue = ex_default,
      fieldService_loadPath = ex_loadPath,
      new_Domain = ex_new_Domain,
      toList = (\<lambda>d. Inr (JArr [])),
      treeBuilder_build = ex_build,
      toDomain_toString = (\<lambda>n. Inr (ex_serialize n)),
      branch_delete = ex_delete\<rparr>"

definition ex_setup :: component where
  "ex_setup =
     \<lparr>props_resModel = ''res.partner'', tree_isSupported = False, tree_root = None,
      defaultLeaf = None, nextId = 0, update_calls = []\<rparr>"

definition ex_props :: props where
  "ex_props = \<lparr>value_prop = ''[]'', resModel = ''res.partner'',
               defaultLeafValue = JArr [JStr ''id'', JStr ''='', JNum 1]\<rparr>"

text \<open>
  Descriptors of the fields \<open>age\<close> and \<open>active\<close> as a leaf holds them, the default leaf
  \<open>(id, =, 1)\<close>, and a component whose tree is the conjunction of one given leaf.
\<close>

definition ex_age :: jsval where
  "ex_age = JObj [(''type'', JStr ''integer''), (''name'', JStr ''age'')]"

definition ex_active :: jsval where
  "ex_active = JObj [(''type'', JStr ''boolean''), (''name'', JStr ''active'')]"

definition ex_default_leaf :: node where
  "ex_default_leaf =
     LeafDomainNode 3 (JObj [(''type'', JStr ''integer''), (''name'', JStr ''id'')])
       (Some ex_eq) (JNum 1)"

definition ex_component :: "node \<Rightarrow> component" where
  "ex_component leaf =
     \<lparr>props_resModel = ''res.partner'', tree_isSupported = True,
      tree_root = Some (BranchDomainNode 2 ''AND'' [leaf]),
      defaultLeaf = Some ex_default_leaf, nextId = 3, update_calls = []\<rparr>"

text \<open>The same collaborators with a field service that is down.\<close>

definition ex_offline :: env where
  "ex_offline = ex_env\<lparr>fieldService_loadPath := (\<lambda>m path. Inl (Thrown ''offline''))\<rparr>"

text \<open>
  What a mutation leaves, seen from its caller: when it returns, the owner has received
  one more string, the serialization of the root as the mutation leaves it; when it
  raises, the owner has received nothing.
\<close>

definition notified :: "env \<Rightarrow> component \<Rightarrow> (js_error + unit) \<times> component \<Rightarrow> bool" where
  "notified E this res =
     (case fst res of
        Inr u \<Rightarrow>
          (\<exists>root s. tree_root (snd res) = Some root \<and> toDomain_toString E root = Inr s
             \<and> update_calls (snd res) = update_calls this @ [s])
      | Inl e \<Rightarrow> update_calls (snd res) = update_calls this)"

section \<open>Nodes in the tree\<close>

lemma node_at_replace_at:
  "node_at root r = Some x \<Longrightarrow> node_at (replace_at root r m) r = Some m"
proof (induction r arbitrary: root)
  case Nil
  then show ?case by simp
next
  case (Cons k ks)
  then show ?case by (cases root) (auto split: if_splits)
qed

lemma replace_at_twice: "replace_at (replace_at root r a) r b = replace_at root r b"
proof (induction r arbitrary: root)
  case Nil
  then show ?case by simp
next
  case (Cons k ks)
  then show ?case by (cases root) auto
qed

lemma deref_store: "deref this r = Some x \<Longrightarrow> deref (store this r m) r = Some m"
  by (auto simp: deref_def store_def node_at_replace_at split: option.splits)

lemma store_store: "store (store this r a) r b = store this r b"
  by (cases "tree_root this") (simp_all add: store_def replace_at_twice)

lemma store_fields:
  "update_calls (store this r m) = update_calls this"
  "nextId (store this r m) = nextId this"
  "defaultLeaf (store this r m) = defaultLeaf this"
  "tree_isSupported (store this r m) = tree_isSupported this"
  "props_resModel (store this r m) = props_resModel this"
  by (simp_all add: store_def)

lemma notifyChanges_root: "tree_root (snd (notifyChanges E this)) = tree_root this"
  by (simp add: notifyChanges_def split: option.splits sum.splits)

lemma deref_notifyChanges: "deref (snd (notifyChanges E this)) r = deref this r"
  by (simp add: deref_def notifyChanges_root)

lemma js_get_first: "js_get (JArr (x # xs)) ''0'' = Inr x"
  by (simp add: js_get_def index_of_key_def upt_conv_Cons digit_char_def del: upt_Suc)

lemma js_get_first_empty: "js_get (JArr []) ''0'' = Inr JUndefined"
  by (simp add: js_get_def index_of_key_def)

lemma ex_deref: "deref (ex_component leaf) [0] = Some leaf"
  by (simp add: deref_def ex_component_def)

lemma ex_findOperator_simps:
  "findOperator ex_env ''='' = Inr (Some ex_eq)"
  "findOperator ex_env ''!='' = Inr (Some ex_ne)"
  "findOperator ex_env ''in'' = Inr (Some ex_in)"
  "findOperator ex_env ''set'' = Inr (Some ex_set)"
  by (simp_all add: ex_env_def ex_findOperator_def)

lemma ex_valueModes:
  "valueMode ex_eq = ''single''" "valueMode ex_ne = ''single''"
  "valueMode ex_in = ''multiple''" "valueMode ex_set = ''none''"
  by (simp_all add: ex_eq_def ex_ne_def ex_in_def ex_set_def)

lemma ex_default_age: "getDefaultFieldValue ex_env ex_age = Inr (JNum 1)"
  by (simp add: ex_env_def ex_default_def ex_age_def andThen_def js_get_def)

section \<open>Field descriptors of the shorthands\<close>

text \<open>
  C5. For the field inputs 0 and 1, the shorthands of the always-false and always-true
  leaves, \<open>loadFieldDef\<close> returns the synthetic descriptor \<open>{ type: "integer" }\<close>. It
  does so whatever the collaborators are, the field service included: the service is not
  consulted. A batch of the two therefore resolves, each key to that descriptor.
\<close>

theorem loadFieldDef_shorthand:
  "loadFieldDef E m (JNum 0) = Inr (JObj [(''type'', JStr ''integer'')])
   \<and> loadFieldDef E m (JNum 1) = Inr (JObj [(''type'', JStr ''integer'')])
   \<and> loadFieldDefs E m [JNum 0, JNum 1]
       = Inr [''0'' \<mapsto> JObj [(''type'', JStr ''integer'')],
              ''1'' \<mapsto> JObj [(''type'', JStr ''integer'')]]"
  by (simp add: loadFieldDefs_def loadFieldDef_def toString_def andThen_def
      string_of_int_def digit_char_def)

theorem loadFieldDef_shorthand_witness:
  "loadFieldDef ex_offline ''res.partner'' (JNum 0) = Inr (JObj [(''type'', JStr ''integer'')])
   \<and> loadFieldDef ex_offline ''res.partner'' (JNum 1)
       = Inr (JObj [(''type'', JStr ''integer'')])
   \<and> loadFieldDefs ex_offline ''res.partner'' [JNum 0, JNum 1]
       = Inr [''0'' \<mapsto> JObj [(''type'', JStr ''integer'')],
              ''1'' \<mapsto> JObj [(''type'', JStr ''integer'')]]"
  by (rule loadFieldDef_shorthand)

text \<open>
  C9. For the empty string as field path \<open>loadFieldDef\<close> returns the synthetic integer
  descriptor, not \<open>null\<close>: \<open>"01".includes("")\<close> holds, so the shorthand test of line 113
  answers before the guard of line 116 is reached, whatever the collaborators are.
\<close>

theorem loadFieldDef_empty_path:
  "includes_str ''01'' []
   \<and> loadFieldDef E m (JStr []) = Inr (JObj [(''type'', JStr ''integer'')])
   \<and> loadFieldDef E m (JStr []) \<noteq> Inr JNull"
  by (simp add: loadFieldDef_def toString_def andThen_def)

theorem loadFieldDef_empty_path_witness:
  "includes_str ''01'' []
   \<and> loadFieldDef ex_env ''res.partner'' (JStr [])
       = Inr (JObj [(''type'', JStr ''integer'')])
   \<and> loadFieldDef ex_env ''res.partner'' (JStr []) \<noteq> Inr JNull"
  by (rule loadFieldDef_empty_path)

section \<open>Changing the operator, the value and the field of a leaf\<close>

text \<open>
  C1. Let \<open>n\<close> be a leaf of the tree with an operator, and let the new operator, as
  \<open>findOperator\<close> resolves it, have another value mode. After \<open>updateLeafOperator\<close> the
  leaf holds the new operator and the value of the migration table: \<open>false\<close> when the new
  mode is none; the empty list from none to multiple; the one-element list of the old
  value from single to multiple; the default value of the field from none to single;
  the first element of the old list from multiple to single.
\<close>

theorem updateLeafOperator_migrates:
  assumes "deref this n = Some (LeafDomainNode i f (Some previous) v)"
    and "findOperator E ope = Inr (Some new)"
    and "valueMode previous \<noteq> valueMode new"
  shows "(valueMode new = ''none'' \<longrightarrow>
            deref (snd (updateLeafOperator E this n ope)) n
              = Some (LeafDomainNode i f (Some new) (JBool False)))
       \<and> (valueMode previous = ''none'' \<and> valueMode new = ''multiple'' \<longrightarrow>
            deref (snd (updateLeafOperator E this n ope)) n
              = Some (LeafDomainNode i f (Some new) (JArr [])))
       \<and> (valueMode previous = ''single'' \<and> valueMode new = ''multiple'' \<longrightarrow>
            deref (snd (updateLeafOperator E this n ope)) n
              = Some (LeafDomainNode i f (Some new) (JArr [v])))
       \<and> (valueMode previous = ''none'' \<and> valueMode new = ''single'' \<longrightarrow>
            (\<forall>d. getDefaultFieldValue E f = Inr d \<longrightarrow>
               deref (snd (updateLeafOperator E this n ope)) n
                 = Some (LeafDomainNode i f (Some new) d)))
       \<and> (valueMode previous = ''multiple'' \<and> valueMode new = ''single'' \<longrightarrow>
            (\<forall>x xs. v = JArr (x # xs) \<longrightarrow>
               deref (snd (updateLeafOperator E this n ope)) n
                 = Some (LeafDomainNode i f (Some new) x)))"
  using assms
  by (auto simp: updateLeafOperator_def Let_def deref_notifyChanges deref_store store_store
      js_get_first)

text \<open>
  The scenarios of the specification: \<open>(age, =, 10)\<close> to \<open>in\<close>, \<open>(age, in, [10, 20])\<close>
  to \<open>=\<close>, \<open>(active, =, true)\<close> to \<open>set\<close>; and a leaf with \<open>set\<close> to \<open>in\<close> and to \<open>=\<close>.
\<close>

theorem updateLeafOperator_migrates_witness:
  "deref (snd (updateLeafOperator ex_env
        (ex_component (LeafDomainNode 1 ex_age (Some ex_eq) (JNum 10))) [0] ''in'')) [0]
     = Some (LeafDomainNode 1 ex_age (Some ex_in) (JArr [JNum 10]))
   \<and> deref (snd (updateLeafOperator ex_env
        (ex_component (LeafDomainNode 1 ex_age (Some ex_in) (JArr [JNum 10, JNum 20])))
        [0] ''='')) [0]
     = Some (LeafDomainNode 1 ex_age (Some ex_eq) (JNum 10))
   \<and> deref (snd (updateLeafOperator ex_env
        (ex_component (LeafDomainNode 1 ex_active (Some ex_eq) (JBool True))) [0] ''set'')) [0]
     = Some (LeafDomainNode 1 ex_active (Some ex_set) (JBool False))
   \<and> deref (snd (updateLeafOperator ex_env
        (ex_component (LeafDomainNode 1 ex_age (Some ex_set) (JBool False))) [0] ''in'')) [0]
     = Some (LeafDomainNode 1 ex_age (Some ex_in) (JArr []))
   \<and> deref (snd (updateLeafOperator ex_env
        (ex_component (LeafDomainNode 1 ex_age (Some ex_set) (JBool False))) [0] ''='')) [0]
     = Some (LeafDomainNode 1 ex_age (Some ex_eq) (JNum 1))"
proof -
  note m = updateLeafOperator_migrates [where E = ex_env and n = "[0]" and i = 1]
  show ?thesis
    using m [where this = "ex_component (LeafDomainNode 1 ex_age (Some ex_eq) (JNum 10))"
          and f = ex_age and previous = ex_eq and v = "JNum 10" and ope = "''in''"
          and new = ex_in]
      m [where this
            = "ex_component (LeafDomainNode 1 ex_age (Some ex_in) (JArr [JNum 10, JNum 20]))"
          and f = ex_age and previous = ex_in and v = "JArr [JNum 10, JNum 20]"
          and ope = "''=''" and new = ex_eq]
      m [where this = "ex_component (LeafDomainNode 1 ex_active (Some ex_eq) (JBool True))"
          and f = ex_active and previous = ex_eq and v = "JBool True" and ope = "''set''"
          and new = ex_set]
      m [where this = "ex_component (LeafDomainNode 1 ex_age (Some ex_set) (JBool False))"
          and f = ex_age and previous = ex_set and v = "JBool False" and ope = "''in''"
          and new = ex_in]
      m [where this = "ex_component (LeafDomainNode 1 ex_age (Some ex_set) (JBool False))"
          and f = ex_age and previous = ex_set and v = "JBool False" and ope = "''=''"
          and new = ex_eq]
    by (simp add: ex_deref ex_findOperator_simps ex_valueModes ex_default_age)
qed

lemma updateLeafOperator_empty_list:
  assumes "deref this n = Some (LeafDomainNode i f (Some previous) (JArr []))"
    and "findOperator E ope = Inr (Some new)"
    and "valueMode previous = ''multiple''" and "valueMode new = ''single''"
  shows "deref (snd (updateLeafOperator E this n ope)) n
           = Some (LeafDomainNode i f (Some new) JUndefined)"
  using assms
  by (simp add: updateLeafOperator_def Let_def deref_notifyChanges deref_store store_store
      js_get_first_empty)

text \<open>
  C2, as the code has it. The leaf \<open>(age, in, [])\<close>, which \<open>updateLeafOperator\<close> itself
  produces from a leaf with \<open>set\<close>, is changed to \<open>=\<close>: line 187 reads element 0 of the
  empty list, and the value of the leaf becomes \<open>undefined\<close>, where the default value of
  the field is 1. The lemma above says the same of every leaf whose list is empty,
  whatever the collaborators.
\<close>

theorem updateLeafOperator_empty_list_undefined:
  "deref (snd (updateLeafOperator ex_env
        (ex_component (LeafDomainNode 1 ex_age (Some ex_in) (JArr []))) [0] ''='')) [0]
     = Some (LeafDomainNode 1 ex_age (Some ex_eq) JUndefined)
   \<and> getDefaultFieldValue ex_env ex_age = Inr (JNum 1)"
  by (simp add: updateLeafOperator_def Let_def deref_notifyChanges deref_store store_store
      js_get_first_empty ex_deref ex_findOperator_simps ex_valueModes ex_default_age)

text \<open>
  C8. Let \<open>n\<close> be a leaf of the tree. When its operator and the new operator have the
  same value mode, \<open>updateLeafOperator\<close> leaves the value of the leaf as it was; and
  \<open>updateLeafValue\<close> stores the value it is given as it is.
\<close>

theorem same_valueMode_keeps_value:
  assumes "deref this n = Some (LeafDomainNode i f cur v)"
  shows "(\<forall>previous new.
            cur = Some previous \<and> findOperator E ope = Inr (Some new)
              \<and> valueMode previous = valueMode new \<longrightarrow>
            deref (snd (updateLeafOperator E this n ope)) n
              = Some (LeafDomainNode i f (Some new) v))
       \<and> deref (snd (updateLeafValue E this n w)) n = Some (LeafDomainNode i f cur w)"
  using assms
  by (auto simp: updateLeafOperator_def updateLeafValue_def Let_def deref_notifyChanges
      deref_store store_store)

theorem same_valueMode_keeps_value_witness:
  "deref (snd (updateLeafOperator ex_env
        (ex_component (LeafDomainNode 1 ex_age (Some ex_eq) (JNum 10))) [0] ''!='')) [0]
     = Some (LeafDomainNode 1 ex_age (Some ex_ne) (JNum 10))
   \<and> deref (snd (updateLeafValue ex_env
        (ex_component (LeafDomainNode 1 ex_age (Some ex_eq) (JNum 10))) [0]
        (JArr [JNum 4, JNum 2]))) [0]
     = Some (LeafDomainNode 1 ex_age (Some ex_eq) (JArr [JNum 4, JNum 2]))"
  using same_valueMode_keeps_value [where E = ex_env and n = "[0]" and i = 1
      and this = "ex_component (LeafDomainNode 1 ex_age (Some ex_eq) (JNum 10))"
      and f = ex_age and cur = "Some ex_eq" and v = "JNum 10" and ope = "''!=''"
      and w = "JArr [JNum 4, JNum 2]"]
  by (simp add: ex_deref ex_findOperator_simps ex_valueModes)

text \<open>
  C6. Let \<open>n\<close> be a leaf of the tree, and let the new field resolve to a descriptor
  whose type has registered operators and a default value. After \<open>updateField\<close> the leaf
  holds the descriptor with the name of the field, the first operator registered for the
  type of the field, and the default value of the descriptor.
\<close>

theorem updateField_resets:
  assumes "deref this n = Some (LeafDomainNode i f ope v)"
    and "loadFieldDef E (props_resModel this) field = Inr fieldDef"
    and "js_get fieldDef ''type'' = Inr ty"
    and "fields_getOperatorsInfo E ty = Inr (first # rest)"
    and "getDefaultFieldValue E fieldDef = Inr dv"
  shows "deref (snd (updateField E this n field)) n
           = Some (LeafDomainNode i (JObj (set_prop ''name'' field (spread fieldDef)))
                     (Some first) dv)"
  using assms
  by (simp add: updateField_def Let_def andThen_def deref_notifyChanges deref_store
      store_store)

lemma ex_loadFieldDef_active:
  "loadFieldDef ex_env ''res.partner'' (JStr ''active'')
     = Inr (JObj [(''type'', JStr ''boolean'')])"
  by (simp add: loadFieldDef_def toString_def andThen_def ex_env_def ex_loadPath_def
      ex_fieldDefs_def js_get_def js_truthy_def at_last_def)

theorem updateField_resets_witness:
  "deref (snd (updateField ex_env
        (ex_component (LeafDomainNode 1 ex_age (Some ex_in) (JArr [JNum 10]))) [0]
        (JStr ''active''))) [0]
     = Some (LeafDomainNode 1 ex_active (Some ex_eq) (JBool True))"
proof -
  have "fields_getOperatorsInfo ex_env (JStr ''boolean'') = Inr [ex_eq, ex_set]"
    by (simp add: ex_env_def ex_operators_def)
  moreover have "getDefaultFieldValue ex_env (JObj [(''type'', JStr ''boolean'')])
                   = Inr (JBool True)"
    by (simp add: ex_env_def ex_default_def andThen_def js_get_def)
  moreover have "js_get (JObj [(''type'', JStr ''boolean'')]) ''type'' = Inr (JStr ''boolean'')"
    by (simp add: js_get_def)
  moreover have "props_resModel (ex_component (LeafDomainNode 1 ex_age (Some ex_in)
                   (JArr [JNum 10]))) = ''res.partner''"
    by (simp add: ex_component_def)
  ultimately show ?thesis
    using updateField_resets [where E = ex_env and n = "[0]" and i = 1
        and this = "ex_component (LeafDomainNode 1 ex_age (Some ex_in) (JArr [JNum 10]))"
        and f = ex_age and ope = "Some ex_in" and v = "JArr [JNum 10]"
        and field = "JStr ''active''" and fieldDef = "JObj [(''type'', JStr ''boolean'')]"
        and ty = "JStr ''boolean''" and first = ex_eq and rest = "[ex_set]"
        and dv = "JBool True"]
    by (simp add: ex_deref ex_loadFieldDef_active spread_def ex_active_def)
qed

section \<open>The operators offered for a leaf\<close>

text \<open>
  C4. For a leaf with an operator, on a field whose type the registry answers for, the
  list \<open>getOperatorsInfo(node)\<close> returns holds an operator with the key of the leaf's
  operator: when no registered operator has that key, the list is the registered
  operators followed by the operator of the leaf; otherwise it is the registered
  operators.
\<close>

theorem getOperatorsInfo_keeps_current:
  assumes "js_get f ''type'' = Inr ty"
    and "fields_getOperatorsInfo E ty = Inr operators"
  shows "\<exists>offered.
           getOperatorsInfo E (LeafDomainNode i f (Some current) v) = Inr offered
         \<and> (\<exists>x. Some x \<in> set offered \<and> key x = key current)
         \<and> (key current \<notin> key ` set operators \<longrightarrow>
              offered = map Some operators @ [Some current])
         \<and> (key current \<in> key ` set operators \<longrightarrow> offered = map Some operators)"
proof (cases "key current \<in> key ` set operators")
  case True
  then obtain x where "x \<in> set operators" and "key x = key current"
    by auto
  with True assms show ?thesis
    by (auto simp: getOperatorsInfo_def andThen_def list_ex_iff)
next
  case False
  then have "\<not> list_ex (\<lambda>op. key op = key current) operators"
    by (metis (mono_tags, lifting) imageI list_ex_iff)
  with False assms show ?thesis
    by (auto simp: getOperatorsInfo_def andThen_def)
qed

theorem getOperatorsInfo_keeps_current_witness:
  "getOperatorsInfo ex_env (LeafDomainNode 1 ex_age (Some ex_ilike) (JStr ''a''))
     = Inr [Some ex_eq, Some ex_ne, Some ex_in, Some ex_set, Some ex_ilike]
   \<and> getOperatorsInfo ex_env (LeafDomainNode 1 ex_age (Some ex_in) (JArr []))
     = Inr [Some ex_eq, Some ex_ne, Some ex_in, Some ex_set]"
proof -
  have ty: "js_get ex_age ''type'' = Inr (JStr ''integer'')"
    by (simp add: js_get_def ex_age_def)
  have ops: "fields_getOperatorsInfo ex_env (JStr ''integer'') = Inr [ex_eq, ex_ne, ex_in, ex_set]"
    by (simp add: ex_env_def ex_operators_def)
  have keys: "key ex_ilike \<notin> key ` set [ex_eq, ex_ne, ex_in, ex_set]"
    "key ex_in \<in> key ` set [ex_eq, ex_ne, ex_in, ex_set]"
    by (simp_all add: ex_eq_def ex_ne_def ex_in_def ex_set_def ex_ilike_def)
  show ?thesis
    using getOperatorsInfo_keeps_current [OF ty ops, of 1 ex_ilike "JStr ''a''"]
      getOperatorsInfo_keeps_current [OF ty ops, of 1 ex_in "JArr []"] keys
    by auto
qed


section \<open>Inserting a branch\<close>

lemma clone_erase_ids:
  "erase_ids (fst (clone d n)) = erase_ids d"
  "map erase_ids (fst (clone_list cs n)) = map erase_ids cs"
  by (induction d n and cs n rule: clone_clone_list.induct)
    (auto simp: new_BranchDomainNode_def split: prod.splits)

lemma clone_ids_fresh:
  "n \<le> snd (clone d n) \<and> (\<forall>x \<in> set (ids (fst (clone d n))). n < x \<and> x \<le> snd (clone d n))"
  "n \<le> snd (clone_list cs n)
     \<and> (\<forall>x \<in> set (concat (map ids (fst (clone_list cs n)))). n < x \<and> x \<le> snd (clone_list cs n))"
  by (induction d n and cs n rule: clone_clone_list.induct)
    (fastforce simp: new_BranchDomainNode_def split: prod.splits)+

lemma clone_ids_distinct:
  "distinct (ids (fst (clone d n)))"
  "distinct (concat (map ids (fst (clone_list cs n))))"
proof (induction d n and cs n rule: clone_clone_list.induct)
  case (1 i f ope v n)
  show ?case by simp
next
  case (2 i ope cs n)
  then show ?case
    using clone_ids_fresh(2) [of n cs]
    by (fastforce simp: new_BranchDomainNode_def split: prod.splits)
next
  case (3 n)
  show ?case by simp
next
  case (4 c cs n)
  then show ?case
    using clone_ids_fresh(1) [of n c] clone_ids_fresh(2) [of "snd (clone c n)" cs]
    by (fastforce split: prod.splits)
qed

lemma insertAfter_split:
  "node_id n \<notin> node_id ` set pre \<Longrightarrow>
     insertAfter (node_id n) b (pre @ n # post) = pre @ n # b # post"
  by (induction pre) auto

lemma createNewBranch_clones:
  assumes "defaultLeaf this = Some d"
  shows "createNewBranch this ope
           = (Inr (BranchDomainNode (Suc (snd (clone d (snd (clone d (nextId this)))))) ope
                     [fst (clone d (nextId this)),
                      fst (clone d (snd (clone d (nextId this))))]),
              this\<lparr>nextId := Suc (snd (clone d (snd (clone d (nextId this)))))\<rparr>)"
  using assms
  by (simp add: createNewBranch_def createNewLeaf_def new_BranchDomainNode_def
      split: prod.splits)

lemma deref_nextId: "deref (this\<lparr>nextId := k\<rparr>) r = deref this r"
  by (simp add: deref_def)

text \<open>
  C10. Let \<open>parent\<close> be a branch of the tree and \<open>n\<close> one of its children, the first
  with its id, and let the component have a default leaf \<open>d\<close>. After \<open>insertBranch\<close> the
  children of \<open>parent\<close> are the old ones with a new branch right after \<open>n\<close>. The
  operator of the new branch is \<open>OR\<close> when that of \<open>parent\<close> is \<open>AND\<close>, and \<open>AND\<close>
  otherwise; its children are two clones of \<open>d\<close>, made one after the other, each equal
  to \<open>d\<close> up to ids; the new branch takes the next id after them; and the ids of the new
  branch and of the clones are distinct and were not given out before.
\<close>

theorem insertBranch_opposite_connective:
  assumes "deref this parent = Some (BranchDomainNode i ope (pre @ n # post))"
    and "node_id n \<notin> node_id ` set pre"
    and "defaultLeaf this = Some d"
  shows "\<exists>j c1 c2.
           deref (snd (insertBranch E this parent n)) parent
             = Some (BranchDomainNode i ope
                      (pre @ n
                        # BranchDomainNode j (if ope = ''AND'' then ''OR'' else ''AND'') [c1, c2]
                        # post))
         \<and> c1 = fst (clone d (nextId this))
         \<and> c2 = fst (clone d (snd (clone d (nextId this))))
         \<and> j = Suc (snd (clone d (snd (clone d (nextId this)))))
         \<and> erase_ids c1 = erase_ids d \<and> erase_ids c2 = erase_ids d
         \<and> distinct (j # ids c1 @ ids c2)
         \<and> (\<forall>x \<in> set (j # ids c1 @ ids c2). nextId this < x)"
proof -
  let ?n1 = "snd (clone d (nextId this))"
  let ?n2 = "snd (clone d ?n1)"
  let ?c1 = "fst (clone d (nextId this))"
  let ?c2 = "fst (clone d ?n1)"
  let ?op = "if ope = ''AND'' then ''OR'' else ''AND''"
  have f1: "nextId this \<le> ?n1" "\<forall>x \<in> set (ids ?c1). nextId this < x \<and> x \<le> ?n1"
    using clone_ids_fresh(1) [of "nextId this" d] by auto
  have f2: "?n1 \<le> ?n2" "\<forall>x \<in> set (ids ?c2). ?n1 < x \<and> x \<le> ?n2"
    using clone_ids_fresh(1) [of ?n1 d] by auto
  have dist: "distinct (Suc ?n2 # ids ?c1 @ ids ?c2)"
    using f1 f2 clone_ids_distinct(1) [of d "nextId this"] clone_ids_distinct(1) [of d ?n1]
    by fastforce
  have fresh: "\<forall>x \<in> set (Suc ?n2 # ids ?c1 @ ids ?c2). nextId this < x"
    using f1 f2 by fastforce
  have "deref (snd (insertBranch E this parent n)) parent
          = Some (BranchDomainNode i ope
                   (pre @ n # BranchDomainNode (Suc ?n2) ?op [?c1, ?c2] # post))"
    using assms
    by (simp add: insertBranch_def Let_def createNewBranch_clones deref_notifyChanges
        deref_store deref_nextId insertAfter_split)
  with dist fresh show ?thesis
    by (simp add: clone_erase_ids)
qed

theorem insertBranch_opposite_connective_witness:
  "deref (snd (insertBranch ex_env
        (ex_component (LeafDomainNode 1 ex_age (Some ex_eq) (JNum 10))) []
        (LeafDomainNode 1 ex_age (Some ex_eq) (JNum 10)))) []
     = Some (BranchDomainNode 2 ''AND''
              [LeafDomainNode 1 ex_age (Some ex_eq) (JNum 10),
               BranchDomainNode 6 ''OR''
                 [LeafDomainNode 4 (JObj [(''type'', JStr ''integer''), (''name'', JStr ''id'')])
                    (Some ex_eq) (JNum 1),
                  LeafDomainNode 5 (JObj [(''type'', JStr ''integer''), (''name'', JStr ''id'')])
                    (Some ex_eq) (JNum 1)]])"
  using insertBranch_opposite_connective [where E = ex_env and parent = "[]" and i = 2
      and this = "ex_component (LeafDomainNode 1 ex_age (Some ex_eq) (JNum 10))"
      and ope = "''AND''" and pre = "[]" and post = "[]"
      and n = "LeafDomainNode 1 ex_age (Some ex_eq) (JNum 10)" and d = ex_default_leaf]
  by (auto simp: deref_def ex_component_def ex_default_leaf_def)

section \<open>Rebuilding the tree\<close>

lemma onPropsUpdated_try_supported:
  assumes "onPropsUpdated_try E this p = (Inr u, this1)"
  shows "\<exists>d fieldDefs root k.
           new_Domain E (JStr (value_prop p)) = Inr d
         \<and> treeBuilder_build E d fieldDefs (nextId this) = (Inr root, k)
         \<and> tree_root this1 = Some root \<and> tree_isSupported this1
         \<and> update_calls this1 = update_calls this"
  using assms
  by (fastforce simp: onPropsUpdated_try_def andThen_def split: sum.splits prod.splits)

text \<open>
  C3. Let the constructor of the domain class accept the empty list, and let the builder
  build a root from that empty domain whatever the id counter is. Then
  \<open>onPropsUpdated\<close> returns normally on every input. When its \<open>try\<close> block raises, for
  whatever reason and after whatever it had assigned, the tree is marked unsupported and
  its root is the root built from the empty domain; nothing else of the state the block
  left is changed but the id counter. When the block does not raise, the tree is marked
  supported and its root is the tree the builder returned for the parsed input.
\<close>

theorem onPropsUpdated_catches:
  assumes "new_Domain E (JArr []) = Inr d0"
    and "\<forall>k. \<exists>r k'. treeBuilder_build E d0 Map.empty k = (Inr r, k')"
  shows "fst (onPropsUpdated E this p) = Inr ()
       \<and> (\<forall>e this1. onPropsUpdated_try E this p = (Inl e, this1) \<longrightarrow>
            (\<exists>r k'. treeBuilder_build E d0 Map.empty (nextId this1) = (Inr r, k')
               \<and> snd (onPropsUpdated E this p)
                   = this1\<lparr>tree_isSupported := False, tree_root := Some r, nextId := k'\<rparr>))
       \<and> (\<forall>u this1. onPropsUpdated_try E this p = (Inr u, this1) \<longrightarrow>
            snd (onPropsUpdated E this p) = this1 \<and> tree_isSupported this1
            \<and> (\<exists>d fieldDefs root k.
                  new_Domain E (JStr (value_prop p)) = Inr d
                \<and> treeBuilder_build E d fieldDefs (nextId this) = (Inr root, k)
                \<and> tree_root this1 = Some root))"
proof -
  obtain res this1 where t: "onPropsUpdated_try E this p = (res, this1)"
    by (cases "onPropsUpdated_try E this p")
  show ?thesis
  proof (cases res)
    case (Inl e)
    obtain r k' where b: "treeBuilder_build E d0 Map.empty (nextId this1) = (Inr r, k')"
      using assms(2) by blast
    with t Inl assms(1) show ?thesis
      by (simp add: onPropsUpdated_def)
  next
    case (Inr u)
    with t onPropsUpdated_try_supported [of E this p u this1] show ?thesis
      by (auto simp: onPropsUpdated_def)
  qed
qed

text \<open>
  Three rebuilds of a component at setup: a value that does not parse; a default leaf on
  a field the service does not know, which fails after the root was assigned; and the
  empty domain with the default leaf \<open>(id, =, 1)\<close>, which succeeds.
\<close>

theorem onPropsUpdated_catches_witness:
  "onPropsUpdated ex_env ex_setup (ex_props\<lparr>value_prop := ''[(''\<rparr>)
     = (Inr (), ex_setup\<lparr>tree_isSupported := False,
                        tree_root := Some (BranchDomainNode 1 ''AND'' []), nextId := 1\<rparr>)
   \<and> onPropsUpdated_try ex_env ex_setup
        (ex_props\<lparr>defaultLeafValue := JArr [JStr ''nope'', JStr ''='', JNum 1]\<rparr>)
     = (Inl (Thrown ''unknown field''),
        ex_setup\<lparr>tree_root := Some (BranchDomainNode 1 ''AND'' []), nextId := 1\<rparr>)
   \<and> onPropsUpdated ex_env ex_setup
        (ex_props\<lparr>defaultLeafValue := JArr [JStr ''nope'', JStr ''='', JNum 1]\<rparr>)
     = (Inr (), ex_setup\<lparr>tree_isSupported := False,
                        tree_root := Some (BranchDomainNode 2 ''AND'' []), nextId := 2\<rparr>)
   \<and> onPropsUpdated ex_env ex_setup ex_props
     = (Inr (), ex_setup\<lparr>tree_isSupported := True,
                        tree_root := Some (BranchDomainNode 1 ''AND'' []),
                        defaultLeaf := Some (LeafDomainNode 2
                          (JObj [(''type'', JStr ''integer''), (''name'', JStr ''id'')])
                          (Some ex_eq) (JNum 1)),
                        nextId := 3\<rparr>)"
proof -
  have d0: "new_Domain ex_env (JArr []) = Inr (Domain (ex_toAST (JArr [])))"
    by (simp add: ex_env_def ex_new_Domain_def)
  have b0: "\<forall>k. \<exists>r k'. treeBuilder_build ex_env (Domain (ex_toAST (JArr []))) Map.empty k
              = (Inr r, k')"
    by (simp add: ex_env_def ex_build_def js_get_def)
  have t1: "onPropsUpdated_try ex_env ex_setup (ex_props\<lparr>value_prop := ''[(''\<rparr>)
              = (Inl (Thrown ''parse error''), ex_setup)"
    by (simp add: onPropsUpdated_try_def andThen_def ex_env_def ex_new_Domain_def
        ex_props_def)
  have t2: "onPropsUpdated_try ex_env ex_setup
              (ex_props\<lparr>defaultLeafValue := JArr [JStr ''nope'', JStr ''='', JNum 1]\<rparr>)
            = (Inl (Thrown ''unknown field''),
               ex_setup\<lparr>tree_root := Some (BranchDomainNode 1 ''AND'' []), nextId := 1\<rparr>)"
    by code_simp
  have t3: "onPropsUpdated_try ex_env ex_setup ex_props
            = (Inr (), ex_setup\<lparr>tree_isSupported := True,
                        tree_root := Some (BranchDomainNode 1 ''AND'' []),
                        defaultLeaf := Some (LeafDomainNode 2
                          (JObj [(''type'', JStr ''integer''), (''name'', JStr ''id'')])
                          (Some ex_eq) (JNum 1)),
                        nextId := 3\<rparr>)"
    by code_simp
  note c = onPropsUpdated_catches [OF d0 b0, of ex_setup]
  note ev = ex_env_def ex_build_def js_get_def ex_setup_def
  have "fst (onPropsUpdated ex_env ex_setup (ex_props\<lparr>value_prop := ''[(''\<rparr>)) = Inr ()"
    and "snd (onPropsUpdated ex_env ex_setup (ex_props\<lparr>value_prop := ''[(''\<rparr>))
         = ex_setup\<lparr>tree_isSupported := False,
                    tree_root := Some (BranchDomainNode 1 ''AND'' []), nextId := 1\<rparr>"
    using c [of "ex_props\<lparr>value_prop := ''[(''\<rparr>"] t1 by (auto simp: ev)
  then have w1: "onPropsUpdated ex_env ex_setup (ex_props\<lparr>value_prop := ''[(''\<rparr>)
     = (Inr (), ex_setup\<lparr>tree_isSupported := False,
                        tree_root := Some (BranchDomainNode 1 ''AND'' []), nextId := 1\<rparr>)"
    by (simp add: prod_eq_iff)
  have "fst (onPropsUpdated ex_env ex_setup
          (ex_props\<lparr>defaultLeafValue := JArr [JStr ''nope'', JStr ''='', JNum 1]\<rparr>)) = Inr ()"
    and "snd (onPropsUpdated ex_env ex_setup
          (ex_props\<lparr>defaultLeafValue := JArr [JStr ''nope'', JStr ''='', JNum 1]\<rparr>))
         = ex_setup\<lparr>tree_isSupported := False,
                    tree_root := Some (BranchDomainNode 2 ''AND'' []), nextId := 2\<rparr>"
    using c [of "ex_props\<lparr>defaultLeafValue := JArr [JStr ''nope'', JStr ''='', JNum 1]\<rparr>"] t2
    by (auto simp: ev)
  then have w2: "onPropsUpdated ex_env ex_setup
        (ex_props\<lparr>defaultLeafValue := JArr [JStr ''nope'', JStr ''='', JNum 1]\<rparr>)
     = (Inr (), ex_setup\<lparr>tree_isSupported := False,
                        tree_root := Some (BranchDomainNode 2 ''AND'' []), nextId := 2\<rparr>)"
    by (simp add: prod_eq_iff)
  have "fst (onPropsUpdated ex_env ex_setup ex_props) = Inr ()"
    and "snd (onPropsUpdated ex_env ex_setup ex_props)
         = ex_setup\<lparr>tree_isSupported := True,
                        tree_root := Some (BranchDomainNode 1 ''AND'' []),
                        defaultLeaf := Some (LeafDomainNode 2
                          (JObj [(''type'', JStr ''integer''), (''name'', JStr ''id'')])
                          (Some ex_eq) (JNum 1)),
                        nextId := 3\<rparr>"
    using c [of ex_props] t3 by auto
  then have w3: "onPropsUpdated ex_env ex_setup ex_props
     = (Inr (), ex_setup\<lparr>tree_isSupported := True,
                        tree_root := Some (BranchDomainNode 1 ''AND'' []),
                        defaultLeaf := Some (LeafDomainNode 2
                          (JObj [(''type'', JStr ''integer''), (''name'', JStr ''id'')])
                          (Some ex_eq) (JNum 1)),
                        nextId := 3\<rparr>)"
    by (simp add: prod_eq_iff)
  from w1 t2 w2 w3 show ?thesis
    by simp
qed

section \<open>Every mutation notifies the owner\<close>

lemma notified_notifyChanges:
  "update_calls t = update_calls this \<Longrightarrow> notified E this (notifyChanges E t)"
  by (auto simp: notified_def notifyChanges_def split: option.splits sum.splits)

lemma notified_raise:
  "update_calls t = update_calls this \<Longrightarrow> notified E this (Inl e, t)"
  by (simp add: notified_def)

lemma createNewLeaf_calls:
  "createNewLeaf this = (x, this1) \<Longrightarrow> update_calls this1 = update_calls this"
  by (auto simp: createNewLeaf_def split: option.splits prod.splits)

lemma createNewBranch_calls:
  "createNewBranch this ope = (x, this1) \<Longrightarrow> update_calls this1 = update_calls this"
  by (auto simp: createNewBranch_def new_BranchDomainNode_def
      split: sum.splits prod.splits dest!: createNewLeaf_calls)

lemma notified_insertRootLeaf: "notified E this (insertRootLeaf E this parent)"
  by (auto simp: insertRootLeaf_def store_fields split: option.splits node.splits
      prod.splits sum.splits dest: createNewLeaf_calls
      intro!: notified_notifyChanges notified_raise)

lemma notified_insertLeaf: "notified E this (insertLeaf E this parent n)"
  by (auto simp: insertLeaf_def store_fields split: option.splits node.splits
      prod.splits sum.splits dest: createNewLeaf_calls
      intro!: notified_notifyChanges notified_raise)

lemma notified_insertBranch: "notified E this (insertBranch E this parent n)"
  by (auto simp: insertBranch_def Let_def store_fields split: option.splits node.splits
      prod.splits sum.splits dest: createNewBranch_calls
      intro!: notified_notifyChanges notified_raise)

lemma notified_delete: "notified E this (delete E this parent n)"
  by (auto simp: delete_def split: option.splits node.splits sum.splits
      intro!: notified_notifyChanges notified_raise)

lemma notified_updateBranchOperator: "notified E this (updateBranchOperator E this n ope)"
  by (auto simp: updateBranchOperator_def store_fields split: option.splits node.splits
      intro!: notified_notifyChanges notified_raise)

lemma notified_updateField: "notified E this (updateField E this n field)"
  by (auto simp: updateField_def Let_def store_fields split: option.splits node.splits
      sum.splits intro!: notified_notifyChanges notified_raise)

lemma notified_updateLeafOperator: "notified E this (updateLeafOperator E this n ope)"
  by (auto simp: updateLeafOperator_def Let_def store_fields
      split: option.splits node.splits sum.splits
      intro!: notified_notifyChanges notified_raise)

lemma notified_updateLeafValue: "notified E this (updateLeafValue E this n v)"
  by (auto simp: updateLeafValue_def store_fields split: option.splits node.splits
      intro!: notified_notifyChanges notified_raise)

lemma notified_mutate: "notified E this (mutate E this m)"
  by (cases m)
    (simp_all add: notified_insertRootLeaf notified_insertLeaf notified_insertBranch
      notified_delete notified_updateBranchOperator notified_updateField
      notified_updateLeafOperator notified_updateLeafValue)








text \<open>
  Outside the inputs a mutation is made for, nothing keeps it from raising: the
  mutations check nothing and catch nothing. \<open>updateField\<close> with the path \<open>nope\<close>, which
  the field service reports as invalid, is not accepted: \<open>loadFieldDef\<close> returns \<open>null\<close>
  (line 121), and \<open>fieldDef.type\<close> at line 165 raises before the owner is notified.
\<close>

lemma updateField_unresolved_raises:
  "\<not> accepted ex_env (ex_component (LeafDomainNode 1 ex_age (Some ex_eq) (JNum 10)))
       (UpdateField [0] (JStr ''nope''))
   \<and> mutate ex_env (ex_component (LeafDomainNode 1 ex_age (Some ex_eq) (JNum 10)))
       (UpdateField [0] (JStr ''nope''))
     = (Inl TypeError,
        ex_component (LeafDomainNode 1 (JObj [(''name'', JStr ''nope'')]) (Some ex_eq)
          (JNum 10)))"
  by code_simp

end
